theory Spec2Isabelle
  imports Complex_Main "HOL-Library.Char_ord" "HOL-Library.List_Lexorder" "HOL-Library.Sublist"
begin

section \<open>Conventions of the embedding\<close>

text \<open>
  The Python dictionaries of the program have fixed key sets; each becomes a record.
  A key the source reads with \<^verbatim>\<open>d.get(k, default)\<close> or tests with \<^verbatim>\<open>k in d\<close> is an
  \<open>option\<close> field (\<open>None\<close>: the key is absent); a key the source indexes directly
  (\<^verbatim>\<open>d[k]\<close>) is a plain field. Python numbers (unbounded \<^verbatim>\<open>int\<close> and \<^verbatim>\<open>float\<close>) are
  exact rationals: the arithmetic of the model is the arithmetic the source writes,
  without the rounding of binary64 (the target calories are given with the rounding as
  well). Where the rounding of an operation would carry a value across a tie of
  \<^verbatim>\<open>:.0f\<close> or \<^verbatim>\<open>:.1f\<close>, the model prints the exact value; no statement below rests on
  such a case. Strings are ASCII \<open>char list\<close>s. Writing to the log is left out.
\<close>

definition dict_get :: "'a option \<Rightarrow> 'a \<Rightarrow> 'a" where
  \<comment> \<open>\<^verbatim>\<open>d.get(key, default)\<close> for the field that holds \<^verbatim>\<open>key\<close>\<close>
  "dict_get v d = (case v of Some x \<Rightarrow> x | None \<Rightarrow> d)"

subsection \<open>Strings and number formatting\<close>

definition lower_char :: "char \<Rightarrow> char" where
  "lower_char c = (let n = (of_char c :: nat) in if 65 \<le> n \<and> n \<le> 90 then char_of (n + 32) else c)"

definition normalize_name :: "string \<Rightarrow> string" where
  \<comment> \<open>\<^verbatim>\<open>ingredient.replace(" ", "_").lower()\<close>\<close>
  "normalize_name s = map lower_char (map (\<lambda>c. if c = CHR '' '' then CHR ''_'' else c) s)"

definition digit_char :: "nat \<Rightarrow> char" where
  "digit_char d = char_of (48 + d)"

fun str_nat :: "nat \<Rightarrow> string" where
  "str_nat n = (if n < 10 then [digit_char n] else str_nat (n div 10) @ [digit_char (n mod 10)])"

declare str_nat.simps [simp del]

definition str_int :: "int \<Rightarrow> string" where
  \<comment> \<open>\<^verbatim>\<open>str(i)\<close> of a Python int, as an f-string prints it\<close>
  "str_int i = (if i < 0 then ''-'' @ str_nat (nat (- i)) else str_nat (nat i))"

definition py_int :: "rat \<Rightarrow> int" where
  \<comment> \<open>\<^verbatim>\<open>int(x)\<close>: truncation towards zero\<close>
  "py_int x = (if 0 \<le> x then \<lfloor>x\<rfloor> else \<lceil>x\<rceil>)"

definition round_half_even :: "rat \<Rightarrow> int" where
  "round_half_even x =
     (let f = \<lfloor>x\<rfloor>; d = x - of_int f
      in if d < 1 / 2 then f else if 1 / 2 < d then f + 1 else if even f then f else f + 1)"

definition fmt_0f :: "rat \<Rightarrow> string" where
  \<comment> \<open>\<^verbatim>\<open>f"{x:.0f}"\<close>: the sign, then the magnitude rounded to an integer, ties to even\<close>
  "fmt_0f x = (if x < 0 then ''-'' @ str_nat (nat (round_half_even (- x)))
               else str_nat (nat (round_half_even x)))"

definition fmt_1f :: "rat \<Rightarrow> string" where
  \<comment> \<open>\<^verbatim>\<open>f"{x:.1f}"\<close>: one digit after the point\<close>
  "fmt_1f x =
     (let t = nat (round_half_even (10 * \<bar>x\<bar>))
      in (if x < 0 then ''-'' else '''') @ str_nat (t div 10) @ ''.'' @ str_nat (t mod 10))"

fun join :: "string \<Rightarrow> string list \<Rightarrow> string" where
  "join sep [] = ''''"
| "join sep [x] = x"
| "join sep (x # y # ys) = x @ sep @ join sep (y # ys)"

section \<open>Data model\<close>

text \<open>A recipe of the catalog (\<^verbatim>\<open>recipe_db.json\<close>): \<^verbatim>\<open>id\<close>, \<^verbatim>\<open>title\<close> and \<^verbatim>\<open>calories\<close> are
  indexed directly by the source, the other keys are read with \<^verbatim>\<open>get\<close>.\<close>

record recipe =
  rid :: string
  title :: string
  meal_type :: "string list option"
  cuisine :: "string option"
  calories :: rat
  r_protein_g :: "rat option"
  r_ingredients :: "string list option"
  r_prep_time_min :: "rat option"
  allergens :: "string list option"
  gut_friendly :: "bool option"

record profile =
  name :: "string option"
  age :: "rat option"
  height_cm :: "rat option"
  weight_kg :: "rat option"
  goal :: "string option"
  activity_level :: "string option"
  wake_time :: "string option"
  sleep_time :: "string option"

record preferences =
  p_cuisine :: "string list option"
  dislikes :: "string list option"
  allergies :: "string list option"
  gut_issues :: "bool option"

text \<open>One entry of a day: a meal (keys \<^verbatim>\<open>recipe_id\<close> to \<^verbatim>\<open>prep_time_min\<close>) or a workout
  (keys \<^verbatim>\<open>type\<close>, \<^verbatim>\<open>focus\<close>, \<^verbatim>\<open>duration_min\<close>); both carry \<^verbatim>\<open>meal\<close>, \<^verbatim>\<open>time\<close> and \<^verbatim>\<open>notes\<close>.\<close>

record entry =
  meal :: "string option"
  time :: "string option"
  recipe_id :: "string option"
  recipe_name :: "string option"
  cal :: "rat option"
  protein_g :: "rat option"
  ingredients :: "string list option"
  prep_time_min :: "rat option"
  meal_notes :: "string option"
  wtype :: "string option"
  focus :: "string option"
  duration_min :: "nat option"

text \<open>The value stored under a day: the source tests \<^verbatim>\<open>isinstance(day_meals, list)\<close>.\<close>

datatype day_value = MealList "entry list" | NotAList

type_synonym meal_plan = "(string \<times> day_value) list"

section \<open>NutritionVerifierAgent\<close>

record verification =
  passed :: bool
  daily_calories :: rat
  target_calories :: rat
  calorie_met :: bool
  daily_protein :: rat
  target_protein :: rat
  protein_met :: bool
  gut_risk_items :: "string list"
  gut_safe :: bool
  recommendations :: "string list"

fun meals_calories :: "entry list \<Rightarrow> rat \<Rightarrow> rat" where
  "meals_calories [] tot = tot"
| "meals_calories (m # ms) tot =
     meals_calories ms (case cal m of Some c \<Rightarrow> tot + c | None \<Rightarrow> tot)"

fun days_calories :: "meal_plan \<Rightarrow> rat \<Rightarrow> rat" where
  "days_calories [] tot = tot"
| "days_calories ((day, v) # rest) tot =
     days_calories rest (case v of MealList ms \<Rightarrow> meals_calories ms tot | NotAList \<Rightarrow> tot)"

definition calculate_daily_calories :: "meal_plan \<Rightarrow> rat" where
  "calculate_daily_calories mp = days_calories mp 0 / of_nat (max (length mp) 1)"

fun meals_protein :: "entry list \<Rightarrow> rat \<times> nat \<Rightarrow> rat \<times> nat" where
  "meals_protein [] tc = tc"
| "meals_protein (m # ms) (tot, cnt) =
     meals_protein ms (case protein_g m of Some p \<Rightarrow> (tot + p, cnt + 1) | None \<Rightarrow> (tot, cnt))"

fun days_protein :: "meal_plan \<Rightarrow> rat \<times> nat \<Rightarrow> rat \<times> nat" where
  "days_protein [] tc = tc"
| "days_protein ((day, v) # rest) tc =
     days_protein rest (case v of MealList ms \<Rightarrow> meals_protein ms tc | NotAList \<Rightarrow> tc)"

definition calculate_daily_protein :: "meal_plan \<Rightarrow> rat" where
  "calculate_daily_protein mp =
     (case days_protein mp (0, 0) of
        (tot, cnt) \<Rightarrow> if cnt > 0 then tot / of_nat (max (length mp) 1) else 0)"

text \<open>The nutrition table (\<^verbatim>\<open>nutritions.csv\<close>, loaded into a frame) is a parameter: its rows,
  in file order, as pairs of the columns \<^verbatim>\<open>food_item\<close> and \<^verbatim>\<open>gut_friendly\<close>. The set
  \<^verbatim>\<open>risk_items\<close> is a duplicate-free list in order of first insertion; Python fixes no order
  for \<^verbatim>\<open>list(set)\<close>, and nothing below depends on it.\<close>

type_synonym nutrition_data = "(string \<times> bool) list"

fun ingredients_risks :: "nutrition_data \<Rightarrow> string list \<Rightarrow> string list \<Rightarrow> string list" where
  "ingredients_risks nd [] risk_items = risk_items"
| "ingredients_risks nd (ingredient # rest) risk_items =
     ingredients_risks nd rest
       (case List.find (\<lambda>row. fst row = normalize_name ingredient) nd of
          None \<Rightarrow> risk_items
        | Some row \<Rightarrow>
            if \<not> snd row then (if ingredient \<in> set risk_items then risk_items else risk_items @ [ingredient])
            else risk_items)"

fun meals_risks :: "nutrition_data \<Rightarrow> entry list \<Rightarrow> string list \<Rightarrow> string list" where
  "meals_risks nd [] risk_items = risk_items"
| "meals_risks nd (m # ms) risk_items =
     meals_risks nd ms (ingredients_risks nd (dict_get (ingredients m) []) risk_items)"

fun days_risks :: "nutrition_data \<Rightarrow> meal_plan \<Rightarrow> string list \<Rightarrow> string list" where
  "days_risks nd [] risk_items = risk_items"
| "days_risks nd ((day, v) # rest) risk_items =
     days_risks nd rest (case v of MealList ms \<Rightarrow> meals_risks nd ms risk_items | NotAList \<Rightarrow> risk_items)"

definition check_gut_risks :: "nutrition_data \<Rightarrow> meal_plan \<Rightarrow> string list" where
  "check_gut_risks nd mp = days_risks nd mp []"

definition activity_multipliers :: "(string \<times> rat) list" where
  "activity_multipliers =
     [(''sedentary'', 12 / 10), (''light'', 1375 / 1000), (''moderate'', 155 / 100),
      (''active'', 1725 / 1000), (''very_active'', 19 / 10)]"

definition calculate_target_calories :: "profile \<Rightarrow> string \<Rightarrow> rat" where
  "calculate_target_calories user_profile goal' =
     (let weight = dict_get (weight_kg user_profile) 45;
          height = dict_get (height_cm user_profile) 168;
          age' = dict_get (age user_profile) 20;
          level = dict_get (activity_level user_profile) ''moderate'';
          bmr = 10 * weight + (625 / 100) * height - 5 * age' + 5;
          tdee = bmr * dict_get (map_of activity_multipliers level) (155 / 100)
      in if goal' = ''gain_weight'' then tdee + 500
         else if goal' = ''lose_weight'' then tdee - 500
         else tdee)"

definition calculate_target_protein :: "profile \<Rightarrow> rat" where
  "calculate_target_protein user_profile = dict_get (weight_kg user_profile) 45 * 2"

subsection \<open>The target calories with binary64 rounding\<close>

text \<open>On the machine every \<^verbatim>\<open>float\<close> operation rounds its exact result to the nearest
  binary64 number, ties to even. \<open>round_binary64\<close> is this rounding for the normal range
  (53-bit significand, no overflow or underflow); \<open>calculate_target_calories_binary64\<close> is the
  formula of \<^verbatim>\<open>_calculate_target_calories\<close> with every literal and every operation rounded,
  in the order Python evaluates them.\<close>

fun bit_length :: "nat \<Rightarrow> nat" where
  "bit_length n = (if n = 0 then 0 else Suc (bit_length (n div 2)))"

declare bit_length.simps [simp del]

definition pow2 :: "int \<Rightarrow> rat" where
  "pow2 e = (if 0 \<le> e then 2 ^ nat e else 1 / 2 ^ nat (- e))"

definition binary_exponent :: "rat \<Rightarrow> int" where
  \<comment> \<open>for \<open>x > 0\<close>: the \<open>e\<close> with \<open>2 ^ e \<le> x < 2 ^ (e + 1)\<close>\<close>
  "binary_exponent x =
     (if 1 \<le> x then int (bit_length (nat \<lfloor>x\<rfloor>)) - 1
      else - int (bit_length (nat (\<lceil>1 / x\<rceil> - 1))))"

definition round_binary64 :: "rat \<Rightarrow> rat" where
  "round_binary64 x =
     (if x = 0 then 0
      else let ulp = pow2 (binary_exponent \<bar>x\<bar> - 52)
           in sgn x * of_int (round_half_even (\<bar>x\<bar> / ulp)) * ulp)"

definition calculate_target_calories_binary64 :: "profile \<Rightarrow> string \<Rightarrow> rat" where
  "calculate_target_calories_binary64 user_profile goal' =
     (let weight = dict_get (weight_kg user_profile) 45;
          height = dict_get (height_cm user_profile) 168;
          age' = dict_get (age user_profile) 20;
          level = dict_get (activity_level user_profile) ''moderate'';
          bmr = round_binary64 (round_binary64 (round_binary64 (round_binary64 (10 * weight)
                   + round_binary64 (round_binary64 (625 / 100) * height))
                   - round_binary64 (5 * age')) + 5);
          tdee = round_binary64 (bmr * round_binary64 (dict_get (map_of activity_multipliers level) (155 / 100)))
      in if goal' = ''gain_weight'' then round_binary64 (tdee + 500)
         else if goal' = ''lose_weight'' then round_binary64 (tdee - 500)
         else tdee)"

subsection \<open>The verification\<close>

definition verifier_execute :: "nutrition_data \<Rightarrow> meal_plan \<Rightarrow> profile \<Rightarrow> verification" where
  "verifier_execute nd mp user_profile =
     (let goal' = dict_get (goal user_profile) ''gain_weight'';
          dc = calculate_daily_calories mp;
          dp = calculate_daily_protein mp;
          risks = check_gut_risks nd mp;
          tc = calculate_target_calories user_profile goal';
          tp = calculate_target_protein user_profile;
          cmet = (dc \<ge> tc * (9 / 10));
          pmet = (dp \<ge> tp * (9 / 10));
          safe = (length risks = 0)
      in \<lparr> passed = (cmet \<and> pmet \<and> safe),
           daily_calories = dc, target_calories = tc, calorie_met = cmet,
           daily_protein = dp, target_protein = tp, protein_met = pmet,
           gut_risk_items = risks, gut_safe = safe,
           recommendations =
             (if \<not> cmet then [''Increase calories by '' @ fmt_0f (tc - dc) @ '' kcal to meet weight gain goal''] else [])
             @ (if \<not> pmet then [''Increase protein by '' @ fmt_0f (tp - dp) @ ''g for muscle growth''] else [])
             @ (if \<not> safe then [''Avoid gut-risk ingredients: '' @ join '', '' risks] else []) \<rparr>)"

section \<open>RecipeWorker\<close>

text \<open>The catalog \<^verbatim>\<open>self.recipes\<close> (empty when the file is missing) is a parameter. The
  context of a search is the dictionary the planner passes; its three keys are read with
  \<^verbatim>\<open>get\<close>.\<close>

record recipe_context =
  ctx_preferences :: "preferences option"
  ctx_meal_type :: "string option"
  ctx_calorie_target :: "rat option"

record recipe_result =
  recipes :: "recipe list"
  total_found :: nat

definition empty_preferences :: preferences where
  "empty_preferences = \<lparr> p_cuisine = None, dislikes = None, allergies = None, gut_issues = None \<rparr>"

definition matches_criteria :: "recipe \<Rightarrow> string \<Rightarrow> string list \<Rightarrow> string list \<Rightarrow> bool \<Rightarrow> bool" where
  "matches_criteria recipe mt exclude_allergens preferred_cuisines gut_friendly_only =
     (if mt \<notin> set (dict_get (meal_type recipe) []) then False
      else if list_ex (\<lambda>allergen. allergen \<in> set (dict_get (allergens recipe) [])) exclude_allergens then False
      else if preferred_cuisines \<noteq> [] \<and> cuisine recipe \<notin> set (map Some preferred_cuisines)
              \<and> cuisine recipe \<notin> set [Some ''Indian'', Some ''South Indian''] then False
      else if gut_friendly_only \<and> \<not> dict_get (gut_friendly recipe) False then False
      else True)"

definition calorie_distance :: "rat \<Rightarrow> recipe \<Rightarrow> rat" where
  \<comment> \<open>the sort key \<^verbatim>\<open>lambda r: abs(r["calories"] - calorie_target)\<close>\<close>
  "calorie_distance calorie_target r = \<bar>calories r - calorie_target\<bar>"

definition matched_recipes :: "recipe list \<Rightarrow> recipe_context \<Rightarrow> recipe list" where
  \<comment> \<open>the list \<^verbatim>\<open>matched_recipes\<close> after the loop, before it is sorted\<close>
  "matched_recipes catalog ctx =
     (let prefs = dict_get (ctx_preferences ctx) empty_preferences
      in filter (\<lambda>recipe. matches_criteria recipe (dict_get (ctx_meal_type ctx) ''lunch'')
                            (dict_get (allergies prefs) []) (dict_get (p_cuisine prefs) [])
                            (dict_get (gut_issues prefs) False)) catalog)"

definition recipe_execute :: "recipe list \<Rightarrow> recipe_context \<Rightarrow> recipe_result" where
  \<comment> \<open>\<^verbatim>\<open>list.sort(key=...)\<close> is stable, as \<open>sort_key\<close> is\<close>
  "recipe_execute catalog ctx =
     (let calorie_target = dict_get (ctx_calorie_target ctx) 500;
          matched = sort_key (calorie_distance calorie_target) (matched_recipes catalog ctx)
      in \<lparr> recipes = take 5 matched, total_found = length matched \<rparr>)"

section \<open>PlannerAgent\<close>

definition days :: "string list" where
  "days = [''Monday'', ''Tuesday'', ''Wednesday'', ''Thursday'', ''Friday'', ''Saturday'', ''Sunday'']"

fun dict_set :: "('k \<times> 'v) list \<Rightarrow> 'k \<Rightarrow> 'v \<Rightarrow> ('k \<times> 'v) list" where
  \<comment> \<open>\<^verbatim>\<open>d[k] = v\<close> on an insertion-ordered dictionary\<close>
  "dict_set [] k v = [(k, v)]"
| "dict_set ((k', v') # rest) k v = (if k' = k then (k, v) # rest else (k', v') # dict_set rest k v)"

definition index_of :: "'a list \<Rightarrow> 'a \<Rightarrow> nat" where
  \<comment> \<open>\<^verbatim>\<open>xs.index(x)\<close>; the source calls it only with an element of the list\<close>
  "index_of xs x = length (takeWhile (\<lambda>y. y \<noteq> x) xs)"

definition meal_entry :: "string \<Rightarrow> string \<Rightarrow> string \<Rightarrow> recipe \<Rightarrow> entry" where
  \<comment> \<open>the dictionary literal the source appends for a recipe, the same for every slot\<close>
  "meal_entry slot t note recipe =
     \<lparr> meal = Some slot, time = Some t,
       recipe_id = Some (rid recipe), recipe_name = Some (title recipe),
       cal = Some (calories recipe),
       protein_g = Some (dict_get (r_protein_g recipe) 0),
       ingredients = Some (dict_get (r_ingredients recipe) []),
       prep_time_min = Some (dict_get (r_prep_time_min recipe) 0),
       meal_notes = Some note, wtype = None, focus = None, duration_min = None \<rparr>"

definition workout_schedule :: "(string \<times> (string \<times> string \<times> nat \<times> string)) list" where
  \<comment> \<open>day \<open>\<mapsto>\<close> (type, focus, duration\_min, time)\<close>
  "workout_schedule =
     [(''Monday'', (''resistance'', ''Upper Body'', 45, ''18:00'')),
      (''Tuesday'', (''cardio'', ''Light Jogging'', 30, ''07:00'')),
      (''Wednesday'', (''resistance'', ''Lower Body'', 45, ''18:00'')),
      (''Thursday'', (''yoga'', ''Flexibility & Core'', 30, ''07:00'')),
      (''Friday'', (''resistance'', ''Full Body'', 50, ''18:00'')),
      (''Saturday'', (''sports'', ''Recreational Activity'', 60, ''10:00'')),
      (''Sunday'', (''rest'', ''Active Recovery'', 20, ''08:00''))]"

definition get_workout_for_day :: "string \<Rightarrow> entry option" where
  "get_workout_for_day day =
     (case map_of workout_schedule day of
        Some (ty, fo, du, ti) \<Rightarrow>
          Some \<lparr> meal = Some ''workout'', time = Some ti,
                 recipe_id = None, recipe_name = None, cal = None, protein_g = None,
                 ingredients = None, prep_time_min = None,
                 meal_notes = Some (fo @ '' - '' @ str_nat du @ '' minutes''),
                 wtype = Some ty, focus = Some fo, duration_min = Some du \<rparr>
      | None \<Rightarrow> None)"

definition slot_recipes :: "recipe list \<Rightarrow> preferences \<Rightarrow> string \<Rightarrow> rat \<Rightarrow> recipe list" where
  \<comment> \<open>\<^verbatim>\<open>self.recipe_worker.execute({"preferences": .., "meal_type": .., "calorie_target": ..})["recipes"]\<close>\<close>
  "slot_recipes catalog prefs mt target =
     recipes (recipe_execute catalog
       \<lparr> ctx_preferences = Some prefs, ctx_meal_type = Some mt, ctx_calorie_target = Some target \<rparr>)"

definition daily_meals :: "recipe list \<Rightarrow> preferences \<Rightarrow> string \<Rightarrow> entry list" where
  \<comment> \<open>the body of the loop over \<^verbatim>\<open>days\<close>: the list \<^verbatim>\<open>daily_meals\<close> when it is stored\<close>
  "daily_meals catalog prefs day =
     (let breakfast_recipes = slot_recipes catalog prefs ''breakfast'' 500;
          m1 = (if breakfast_recipes \<noteq> []
                then [meal_entry ''breakfast'' ''08:00'' ''High-protein breakfast for energy'' (breakfast_recipes ! 0)]
                else []);
          snack_recipes = slot_recipes catalog prefs ''snack'' 400;
          m2 = (if snack_recipes \<noteq> []
                then [meal_entry ''snack'' ''11:00'' ''Mid-morning snack'' (snack_recipes ! 0)]
                else []);
          lunch_recipes = slot_recipes catalog prefs ''lunch'' 700;
          m3 = (if lunch_recipes \<noteq> []
                then [meal_entry ''lunch'' ''13:30'' ''Protein-rich lunch''
                        (lunch_recipes ! (if day \<noteq> ''Monday'' then 0
                                          else (if length lunch_recipes > 1 then 1 else 0)))]
                else []);
          evening_snack_recipes = slot_recipes catalog prefs ''snack'' 450;
          m4 = (if evening_snack_recipes \<noteq> []
                then [meal_entry ''evening_snack'' ''17:00'' ''Pre-workout fuel''
                        (evening_snack_recipes ! (if length evening_snack_recipes > 1 then 1 else 0))]
                else []);
          dinner_recipes = slot_recipes catalog prefs ''dinner'' 650;
          m5 = (if dinner_recipes \<noteq> []
                then [meal_entry ''dinner'' ''20:00'' ''Light dinner for gut health''
                        (dinner_recipes ! (index_of days day mod length dinner_recipes))]
                else []);
          m6 = (case get_workout_for_day day of Some workout \<Rightarrow> [workout] | None \<Rightarrow> [])
      in m1 @ m2 @ m3 @ m4 @ m5 @ m6)"

record plan_result =
  pr_meal_plan :: meal_plan
  estimated_daily_calories :: rat
  plan_type :: string

fun mock_plan_loop :: "recipe list \<Rightarrow> preferences \<Rightarrow> string list \<Rightarrow> meal_plan \<Rightarrow> meal_plan" where
  "mock_plan_loop catalog prefs [] mp = mp"
| "mock_plan_loop catalog prefs (day # rest) mp =
     mock_plan_loop catalog prefs rest (dict_set mp day (MealList (daily_meals catalog prefs day)))"

definition generate_mock_plan :: "recipe list \<Rightarrow> profile \<Rightarrow> preferences \<Rightarrow> plan_result" where
  "generate_mock_plan catalog user_profile prefs =
     \<lparr> pr_meal_plan = mock_plan_loop catalog prefs days [],
       estimated_daily_calories = 3000,
       plan_type = ''weight_gain_gut_friendly'' \<rparr>"

definition empty_profile :: profile where
  "empty_profile = \<lparr> name = None, age = None, height_cm = None, weight_kg = None, goal = None,
                     activity_level = None, wake_time = None, sleep_time = None \<rparr>"

text \<open>What the attempt to use the language model ends in: no API key, an exception on the
  way (a failed import or call), or a response text. Every case ends in the mock plan.\<close>

datatype llm_outcome = NoApiKey | LlmException | LlmResponse string

definition parse_llm_response :: "recipe list \<Rightarrow> string \<Rightarrow> plan_result" where
  "parse_llm_response catalog response_text = generate_mock_plan catalog empty_profile empty_preferences"

definition generate_with_llm :: "recipe list \<Rightarrow> llm_outcome \<Rightarrow> profile \<Rightarrow> preferences \<Rightarrow> plan_result" where
  "generate_with_llm catalog llm user_profile prefs =
     (case llm of
        NoApiKey \<Rightarrow> generate_mock_plan catalog user_profile prefs
      | LlmResponse text \<Rightarrow> parse_llm_response catalog text
      | LlmException \<Rightarrow> generate_mock_plan catalog user_profile prefs)"

definition planner_execute ::
  "recipe list \<Rightarrow> bool \<Rightarrow> llm_outcome \<Rightarrow> profile \<Rightarrow> preferences \<Rightarrow> plan_result" where
  "planner_execute catalog use_real_llm llm user_profile prefs =
     (if use_real_llm then generate_with_llm catalog llm user_profile prefs
      else generate_mock_plan catalog user_profile prefs)"

section \<open>SchedulerAgent\<close>

record shopping_item =
  item :: string
  qty :: string
  meals_used :: int

record scheduler_result =
  scheduled_plan :: meal_plan
  shopping_list :: "shopping_item list"
  total_items :: nat

fun schedule_loop :: "meal_plan \<Rightarrow> meal_plan \<Rightarrow> meal_plan" where
  "schedule_loop [] scheduled = scheduled"
| "schedule_loop ((day, meals) # rest) scheduled =
     schedule_loop rest
       (dict_set scheduled day
          (case meals of
             MealList ms \<Rightarrow> MealList (sort_key (\<lambda>m. dict_get (time m) ''00:00'') ms)
           | NotAList \<Rightarrow> meals))"

definition schedule_meals :: "meal_plan \<Rightarrow> profile \<Rightarrow> meal_plan" where
  \<comment> \<open>\<^verbatim>\<open>wake_time\<close> and \<^verbatim>\<open>sleep_time\<close> are read and not used\<close>
  "schedule_meals mp user_profile = schedule_loop mp []"

text \<open>\<^verbatim>\<open>ingredient_counts\<close> is a \<^verbatim>\<open>defaultdict(float)\<close>: an absent key counts as 0.\<close>

fun count_ingredients :: "string list \<Rightarrow> (string \<times> rat) list \<Rightarrow> (string \<times> rat) list" where
  "count_ingredients [] counts = counts"
| "count_ingredients (ingredient # rest) counts =
     count_ingredients rest (dict_set counts ingredient (dict_get (map_of counts ingredient) 0 + 1))"

fun count_meals :: "entry list \<Rightarrow> (string \<times> rat) list \<Rightarrow> (string \<times> rat) list" where
  "count_meals [] counts = counts"
| "count_meals (m # ms) counts =
     count_meals ms (case ingredients m of Some ings \<Rightarrow> count_ingredients ings counts | None \<Rightarrow> counts)"

fun count_days :: "meal_plan \<Rightarrow> (string \<times> rat) list \<Rightarrow> (string \<times> rat) list" where
  "count_days [] counts = counts"
| "count_days ((day, meals) # rest) counts =
     count_days rest (case meals of MealList ms \<Rightarrow> count_meals ms counts | NotAList \<Rightarrow> counts)"

definition base_quantities :: "(string \<times> rat) list" where
  "base_quantities =
     [(''rice'', 5 / 10), (''chicken'', 3 / 10), (''chicken_breast'', 25 / 100), (''eggs'', 2),
      (''milk'', 2 / 10), (''yogurt'', 15 / 100), (''paneer'', 2 / 10), (''vegetables'', 3 / 10),
      (''potato'', 2 / 10), (''sweet_potato'', 2 / 10), (''spinach'', 2 / 10),
      (''tomatoes'', 15 / 100), (''banana'', 1), (''dates'', 5 / 100), (''almonds'', 3 / 100),
      (''cashews'', 3 / 100), (''coconut'', 1 / 10), (''ghee'', 5 / 100), (''olive_oil'', 3 / 100),
      (''whole_wheat_flour'', 15 / 100), (''moong_dal'', 1 / 10), (''urad_dal'', 1 / 10),
      (''lentils'', 1 / 10), (''chickpeas'', 1 / 10), (''kidney_beans'', 1 / 10),
      (''semolina'', 1 / 10), (''oats'', 1 / 10)]"

definition estimate_quantity :: "string \<Rightarrow> rat \<Rightarrow> string" where
  "estimate_quantity ingredient meal_count =
     (let ingredient_clean = normalize_name ingredient;
          base_qty = dict_get (map_of base_quantities ingredient_clean) (1 / 10);
          total_kg = base_qty * meal_count
      in if ingredient \<in> set [''eggs''] then str_int (py_int (total_kg * meal_count)) @ '' pieces''
         else if ingredient \<in> set [''banana'', ''dates''] then str_int (py_int (total_kg * meal_count)) @ '' pieces''
         else if total_kg < 1 / 10 then str_int (py_int (total_kg * 1000)) @ ''g''
         else if total_kg < 1 then str_int (py_int (total_kg * 1000)) @ ''g''
         else fmt_1f total_kg @ ''kg'')"

definition generate_shopping_list :: "meal_plan \<Rightarrow> shopping_item list" where
  \<comment> \<open>\<^verbatim>\<open>sorted(ingredient_counts.items())\<close>: the keys are distinct, so the pairs are ordered
      by ingredient\<close>
  "generate_shopping_list mp =
     map (\<lambda>(ingredient, cnt).
            \<lparr> item = ingredient, qty = estimate_quantity ingredient cnt, meals_used = py_int cnt \<rparr>)
         (sort_key fst (count_days mp []))"

definition scheduler_execute :: "meal_plan \<Rightarrow> profile \<Rightarrow> scheduler_result" where
  "scheduler_execute mp user_profile =
     (let sl = generate_shopping_list mp
      in \<lparr> scheduled_plan = schedule_meals mp user_profile, shopping_list = sl,
           total_items = length sl \<rparr>)"

section \<open>MemoryBank and SessionService\<close>

record history_entry =
  h_date :: string
  h_plan_id :: string
  success_rate :: rat

record memory_data =
  user_profile :: profile
  m_preferences :: preferences
  pantry :: "(string \<times> string) list"
  history :: "history_entry list"

text \<open>The bank holds the dictionary \<^verbatim>\<open>self.data\<close> and the file \<^verbatim>\<open>memory.json\<close>, which
  \<^verbatim>\<open>_save\<close> overwrites with the dictionary.\<close>

record memory_bank =
  data :: memory_data
  memory_file :: memory_data

definition save :: "memory_bank \<Rightarrow> memory_bank" where
  "save mb = mb\<lparr> memory_file := data mb \<rparr>"

definition add_plan_to_history :: "string \<Rightarrow> string \<Rightarrow> rat \<Rightarrow> memory_bank \<Rightarrow> memory_bank" where
  \<comment> \<open>the first argument is \<^verbatim>\<open>datetime.now().strftime("%Y-%m-%d")\<close>\<close>
  "add_plan_to_history today plan_id rate mb =
     save (mb\<lparr> data := (data mb)\<lparr> history := history (data mb)
                 @ [\<lparr> h_date = today, h_plan_id = plan_id, success_rate = rate \<rparr>] \<rparr> \<rparr>)"

definition get_history :: "memory_bank \<Rightarrow> history_entry list" where
  "get_history mb = history (data mb)"

record verification_summary =
  v_passed :: bool
  v_daily_calories :: rat
  v_target_calories :: rat
  v_daily_protein :: rat
  v_target_protein :: rat
  v_recommendations :: "string list"

record final_result =
  plan_id :: string
  session_id :: string
  user :: string
  plan_days :: meal_plan
  fr_shopping_list :: "shopping_item list"
  fr_estimated_daily_calories :: rat
  fr_verification :: verification_summary
  created_at :: string

record session_context =
  c_user_profile :: profile
  c_preferences :: preferences
  c_pantry :: "(string \<times> string) list"
  c_session_id :: string

text \<open>A session: its status, the four keys the orchestrator stores under \<^verbatim>\<open>data\<close>, the
  result and the error. The time stamps of a session are left out.\<close>

record session =
  s_id :: string
  status :: string
  s_context :: "session_context option"
  s_meal_plan :: "meal_plan option"
  s_verification :: "verification option"
  s_schedule :: "scheduler_result option"
  s_result :: "final_result option"
  s_error :: "string option"

type_synonym sessions = "(string \<times> session) list"

definition create_session :: "string \<Rightarrow> sessions \<Rightarrow> sessions" where
  \<comment> \<open>the first argument is the fresh \<^verbatim>\<open>str(uuid.uuid4())\<close>, which is also returned\<close>
  "create_session sid ss =
     dict_set ss sid \<lparr> s_id = sid, status = ''active'', s_context = None, s_meal_plan = None,
                       s_verification = None, s_schedule = None, s_result = None, s_error = None \<rparr>"

definition update_session :: "string \<Rightarrow> (session \<Rightarrow> session) \<Rightarrow> sessions \<Rightarrow> sessions" where
  \<comment> \<open>\<^verbatim>\<open>if session_id in self.sessions: self.sessions[session_id][...] = ...\<close>\<close>
  "update_session sid f ss = (case map_of ss sid of Some s \<Rightarrow> dict_set ss sid (f s) | None \<Rightarrow> ss)"

definition complete_session :: "string \<Rightarrow> final_result \<Rightarrow> sessions \<Rightarrow> sessions" where
  "complete_session sid res ss = update_session sid (\<lambda>s. s\<lparr> status := ''completed'', s_result := Some res \<rparr>) ss"

definition fail_session :: "string \<Rightarrow> string \<Rightarrow> sessions \<Rightarrow> sessions" where
  "fail_session sid err ss = update_session sid (\<lambda>s. s\<lparr> status := ''failed'', s_error := Some err \<rparr>) ss"

section \<open>OrchestratorAgent\<close>

datatype error = ValueError string

record user_input =
  ui_profile :: "profile option"
  ui_preferences :: "preferences option"

definition option_or :: "'a option \<Rightarrow> 'a option \<Rightarrow> 'a option" where
  \<comment> \<open>one key of \<^verbatim>\<open>d.update(e)\<close>: the value of \<^verbatim>\<open>e\<close> where it has the key\<close>
  "option_or new old = (case new of Some x \<Rightarrow> Some x | None \<Rightarrow> old)"

definition profile_update :: "profile \<Rightarrow> profile \<Rightarrow> profile" where
  "profile_update p q =
     \<lparr> name = option_or (name q) (name p), age = option_or (age q) (age p),
       height_cm = option_or (height_cm q) (height_cm p),
       weight_kg = option_or (weight_kg q) (weight_kg p),
       goal = option_or (goal q) (goal p),
       activity_level = option_or (activity_level q) (activity_level p),
       wake_time = option_or (wake_time q) (wake_time p),
       sleep_time = option_or (sleep_time q) (sleep_time p) \<rparr>"

definition preferences_update :: "preferences \<Rightarrow> preferences \<Rightarrow> preferences" where
  "preferences_update p q =
     \<lparr> p_cuisine = option_or (p_cuisine q) (p_cuisine p),
       dislikes = option_or (dislikes q) (dislikes p),
       allergies = option_or (allergies q) (allergies p),
       gut_issues = option_or (gut_issues q) (gut_issues p) \<rparr>"

text \<open>The orchestrator: the bank, the sessions, and what its agents loaded when they were
  built (the catalog, the nutrition table, whether an API key was set).\<close>

record orchestrator =
  memory :: memory_bank
  o_sessions :: sessions
  o_recipes :: "recipe list"
  o_nutrition :: nutrition_data
  o_use_real_llm :: bool

text \<open>What one call reads from outside: the fresh session id, the clock in the three formats
  the call prints it in, and the outcome of the language model.\<close>

record environment =
  new_uuid :: string
  now_stamp :: string
  now_iso :: string
  now_date :: string
  llm_result :: llm_outcome

definition apply_user_input :: "user_input option \<Rightarrow> memory_data \<Rightarrow> memory_data" where
  \<comment> \<open>\<^verbatim>\<open>if user_input:\<close> the two \<^verbatim>\<open>update\<close> calls change the dictionaries held by the bank\<close>
  "apply_user_input inp d =
     (case inp of
        None \<Rightarrow> d
      | Some ui \<Rightarrow>
          if ui_profile ui \<noteq> None \<or> ui_preferences ui \<noteq> None
          then d\<lparr> user_profile := profile_update (user_profile d) (dict_get (ui_profile ui) empty_profile),
                  m_preferences := preferences_update (m_preferences d) (dict_get (ui_preferences ui) empty_preferences) \<rparr>
          else d)"

definition create_meal_plan ::
  "environment \<Rightarrow> user_input option \<Rightarrow> orchestrator \<Rightarrow> (error + final_result) \<times> orchestrator" where
  "create_meal_plan env inp orch =
     (let sid = new_uuid env;
          o1 = orch\<lparr> o_sessions := create_session sid (o_sessions orch) \<rparr>;
          d = apply_user_input inp (data (memory o1));
          o2 = o1\<lparr> memory := (memory o1)\<lparr> data := d \<rparr> \<rparr>;
          profile = user_profile d;
          prefs = m_preferences d
      in if profile = empty_profile
         then (let msg = ''User profile not found. Please set up profile first.''
               in (Inl (ValueError msg), o2\<lparr> o_sessions := fail_session sid msg (o_sessions o2) \<rparr>))
         else
           (let context = \<lparr> c_user_profile = profile, c_preferences = prefs, c_pantry = pantry d,
                             c_session_id = sid \<rparr>;
                ss1 = update_session sid (\<lambda>s. s\<lparr> s_context := Some context \<rparr>) (o_sessions o2);
                planner_result = planner_execute (o_recipes orch) (o_use_real_llm orch) (llm_result env) profile prefs;
                mp = pr_meal_plan planner_result;
                ss2 = update_session sid (\<lambda>s. s\<lparr> s_meal_plan := Some mp \<rparr>) ss1;
                verification_result = verifier_execute (o_nutrition orch) mp profile;
                ss3 = update_session sid (\<lambda>s. s\<lparr> s_verification := Some verification_result \<rparr>) ss2;
                scheduler_res = scheduler_execute mp profile;
                ss4 = update_session sid (\<lambda>s. s\<lparr> s_schedule := Some scheduler_res \<rparr>) ss3;
                pid = ''plan_'' @ now_stamp env;
                final = \<lparr> plan_id = pid, session_id = sid,
                          user = dict_get (name profile) ''User'',
                          plan_days = scheduled_plan scheduler_res,
                          fr_shopping_list = shopping_list scheduler_res,
                          fr_estimated_daily_calories = estimated_daily_calories planner_result,
                          fr_verification =
                            \<lparr> v_passed = passed verification_result,
                              v_daily_calories = daily_calories verification_result,
                              v_target_calories = target_calories verification_result,
                              v_daily_protein = daily_protein verification_result,
                              v_target_protein = target_protein verification_result,
                              v_recommendations = recommendations verification_result \<rparr>,
                          created_at = now_iso env \<rparr>;
                mb = add_plan_to_history (now_date env) pid
                       (if passed verification_result then 1 else 8 / 10) (memory o2)
            in (Inr final, o2\<lparr> memory := mb, o_sessions := complete_session sid final ss4 \<rparr>)))"

section \<open>Observations and sample data\<close>

text \<open>Functions that read a result, used to state the properties below.\<close>

definition day_entries :: "day_value \<Rightarrow> entry list" where
  "day_entries v = (case v of MealList ms \<Rightarrow> ms | NotAList \<Rightarrow> [])"

definition plan_entries :: "meal_plan \<Rightarrow> entry list" where
  \<comment> \<open>all entries of all days, in order\<close>
  "plan_entries mp = concat (map (\<lambda>(day, v). day_entries v) mp)"

definition cal_fields :: "entry list \<Rightarrow> rat list" where
  \<comment> \<open>the \<^verbatim>\<open>cal\<close> fields of the entries that carry one\<close>
  "cal_fields ms = concat (map (\<lambda>m. case cal m of Some c \<Rightarrow> [c] | None \<Rightarrow> []) ms)"

definition plan_day :: "meal_plan \<Rightarrow> string \<Rightarrow> entry list" where
  \<comment> \<open>the entries of \<^verbatim>\<open>meal_plan[day]\<close>; empty when the day is absent or holds no list\<close>
  "plan_day mp day = (case map_of mp day of Some v \<Rightarrow> day_entries v | None \<Rightarrow> [])"

definition slot_entries :: "string \<Rightarrow> entry list \<Rightarrow> entry list" where
  \<comment> \<open>the entries whose \<^verbatim>\<open>meal\<close> key is the given slot\<close>
  "slot_entries slot ms = filter (\<lambda>m. meal m = Some slot) ms"

text \<open>A small catalog, the profile of the test suite, and plans built from them.\<close>

definition mk_recipe :: "string \<Rightarrow> string list \<Rightarrow> string \<Rightarrow> rat \<Rightarrow> recipe" where
  "mk_recipe i slots cu c =
     \<lparr> rid = i, title = i, meal_type = Some slots, cuisine = Some cu, calories = c,
       r_protein_g = Some 20, r_ingredients = Some [''rice'', ''eggs''], r_prep_time_min = Some 10,
       allergens = Some [], gut_friendly = Some True \<rparr>"

definition example_catalog :: "recipe list" where
  "example_catalog =
     [mk_recipe ''L1'' [''lunch''] ''Indian'' 700,
      mk_recipe ''L2'' [''lunch'', ''dinner''] ''Indian'' 600,
      mk_recipe ''B1'' [''breakfast'', ''snack''] ''Italian'' 450]"

definition example_context :: recipe_context where
  "example_context =
     \<lparr> ctx_preferences = Some \<lparr> p_cuisine = Some [''Indian''], dislikes = None,
                                 allergies = Some [''peanut''], gut_issues = Some True \<rparr>,
       ctx_meal_type = Some ''lunch'', ctx_calorie_target = Some 600 \<rparr>"

definition example_profile :: profile where
  "example_profile =
     \<lparr> name = Some ''Test User'', age = Some 20, height_cm = Some 168, weight_kg = Some 45,
       goal = Some ''gain_weight'', activity_level = Some ''moderate'',
       wake_time = Some ''07:00'', sleep_time = Some ''23:00'' \<rparr>"

definition example_week :: meal_plan where
  "example_week =
     [(''Monday'', MealList (daily_meals example_catalog empty_preferences ''Monday'')),
      (''Tuesday'', MealList []), (''Wednesday'', MealList []), (''Thursday'', MealList []),
      (''Friday'', MealList []), (''Saturday'', MealList []), (''Sunday'', NotAList)]"

definition workouts_only :: meal_plan where
  "workouts_only = pr_meal_plan (generate_mock_plan [] empty_profile empty_preferences)"

definition example_orchestrator :: orchestrator where
  "example_orchestrator =
     \<lparr> memory =
         \<lparr> data = \<lparr> user_profile = empty_profile, m_preferences = empty_preferences, pantry = [],
                     history = [\<lparr> h_date = ''2025-01-01'', h_plan_id = ''plan_20250101_120000'',
                                   success_rate = 8 / 10 \<rparr>] \<rparr>,
           memory_file = \<lparr> user_profile = empty_profile, m_preferences = empty_preferences, pantry = [],
                     history = [\<lparr> h_date = ''2025-01-01'', h_plan_id = ''plan_20250101_120000'',
                                   success_rate = 8 / 10 \<rparr>] \<rparr> \<rparr>,
       o_sessions = [], o_recipes = example_catalog, o_nutrition = [(''eggs'', True)],
       o_use_real_llm = False \<rparr>"

definition example_environment :: environment where
  "example_environment =
     \<lparr> new_uuid = ''0b0e6c1e-5f0a-4c51-9d3e-2f5f7c1a9b11'', now_stamp = ''20250102_090000'',
       now_iso = ''2025-01-02T09:00:00'', now_date = ''2025-01-02'', llm_result = NoApiKey \<rparr>"

section \<open>Properties of the verifier\<close>

lemma meals_calories_sum:
  "meals_calories ms tot = tot + sum_list (cal_fields ms)"
  by (induction ms arbitrary: tot) (auto simp: cal_fields_def split: option.splits)

lemma cal_fields_append: "cal_fields (xs @ ys) = cal_fields xs @ cal_fields ys"
  by (simp add: cal_fields_def)

lemma days_calories_sum:
  "days_calories mp tot = tot + sum_list (cal_fields (plan_entries mp))"
proof (induction mp arbitrary: tot)
  case Nil
  then show ?case by (simp add: plan_entries_def cal_fields_def)
next
  case (Cons dv mp)
  obtain day v where dv: "dv = (day, v)" by (cases dv)
  show ?case
  proof (cases v)
    case (MealList ms)
    then show ?thesis
      using Cons.IH [of "meals_calories ms tot"] dv
      by (simp add: meals_calories_sum plan_entries_def day_entries_def cal_fields_append)
  next
    case NotAList
    then show ?thesis
      using Cons.IH [of tot] dv
      by (simp add: plan_entries_def day_entries_def cal_fields_append cal_fields_def)
  qed
qed

lemma meals_protein_none:
  "\<forall>m \<in> set ms. protein_g m = None \<Longrightarrow> meals_protein ms tc = tc"
  by (induction ms arbitrary: tc) (auto split: prod.splits)

lemma days_protein_none:
  "\<forall>m \<in> set (plan_entries mp). protein_g m = None \<Longrightarrow> days_protein mp tc = tc"
proof (induction mp arbitrary: tc)
  case Nil
  then show ?case by simp
next
  case (Cons dv mp)
  obtain day v where dv: "dv = (day, v)" by (cases dv)
  from Cons.prems dv have rest: "\<forall>m \<in> set (plan_entries mp). protein_g m = None"
    by (simp add: plan_entries_def)
  show ?case
  proof (cases v)
    case (MealList ms)
    with Cons.prems dv have "\<forall>m \<in> set ms. protein_g m = None"
      by (simp add: plan_entries_def day_entries_def)
    then show ?thesis using MealList dv Cons.IH [OF rest]
      by (simp add: meals_protein_none)
  next
    case NotAList
    then show ?thesis using dv Cons.IH [OF rest] by simp
  qed
qed

text \<open>Claim C1. The result of the verifier has \<open>passed\<close> exactly when the daily calories reach
  nine tenths of the target calories, the daily protein reaches nine tenths of the target
  protein, and no gut-risk item was found; this holds for every week plan, profile and
  nutrition table.\<close>

theorem verify_passed_iff:
  "passed (verifier_execute nd mp up) =
     (daily_calories (verifier_execute nd mp up) \<ge> (9 / 10) * target_calories (verifier_execute nd mp up)
      \<and> daily_protein (verifier_execute nd mp up) \<ge> (9 / 10) * target_protein (verifier_execute nd mp up)
      \<and> gut_risk_items (verifier_execute nd mp up) = [])"
  by (simp add: verifier_execute_def Let_def mult.commute)

lemma example_goal: "dict_get (goal example_profile) ''gain_weight'' = ''gain_weight''"
  by (simp add: example_profile_def dict_get_def)

lemma example_week_target: "calculate_target_calories example_profile ''gain_weight'' = 267775 / 100"
  by (simp add: calculate_target_calories_def example_profile_def dict_get_def activity_multipliers_def)

lemma example_week_cals: "cal_fields (plan_entries example_week) = [450, 450, 600, 450, 600]"
  by code_simp

lemma example_week_daily: "calculate_daily_calories example_week = 2550 / 7"
  using days_calories_sum [of example_week 0]
  by (simp add: calculate_daily_calories_def example_week_cals) (simp add: example_week_def)

theorem verify_passed_iff_witness:
  "\<not> passed (verifier_execute [] example_week example_profile)
   \<and> daily_calories (verifier_execute [] example_week example_profile) = 2550 / 7
   \<and> target_calories (verifier_execute [] example_week example_profile) = 267775 / 100"
proof -
  have dc: "daily_calories (verifier_execute [] example_week example_profile) = 2550 / 7"
    by (simp add: verifier_execute_def Let_def example_week_daily)
  have tc: "target_calories (verifier_execute [] example_week example_profile) = 267775 / 100"
    by (simp add: verifier_execute_def Let_def example_goal example_week_target)
  show ?thesis
    using verify_passed_iff [of "[]" example_week example_profile]
    by (simp add: dc tc)
qed

text \<open>Claim C4. For a week plan with seven day keys, the daily calories of the verifier are the sum
  of the \<^verbatim>\<open>cal\<close> fields of all entries of all days, divided by 7: the week total over the
  number of days, whichever days hold meals.\<close>

theorem daily_calories_week_total:
  "length mp = 7 \<Longrightarrow>
   daily_calories (verifier_execute nd mp up) = sum_list (cal_fields (plan_entries mp)) / 7"
  by (simp add: verifier_execute_def Let_def calculate_daily_calories_def days_calories_sum)

theorem daily_calories_week_total_witness:
  "length example_week = 7
   \<and> daily_calories (verifier_execute [] example_week example_profile) = 2550 / 7"
proof -
  have len: "length example_week = 7" by (simp add: example_week_def)
  show ?thesis
    using len daily_calories_week_total [OF len, of "[]" example_profile]
    by (simp add: example_week_cals)
qed

text \<open>The scenario on the machine: with binary64 rounding after every operation the value
  is 2677.75 as well (the multiplier 1.55 is not a binary64 number; the product rounds to
  2177.75).\<close>

lemma example_binary64:
  "calculate_target_calories_binary64 example_profile ''gain_weight'' = 267775 / 100"
  by code_simp

lemma scenario_binary64:
  "calculate_target_calories_binary64
      (p\<lparr> age := Some 20, height_cm := Some 168, weight_kg := Some 45,
          goal := Some ''gain_weight'', activity_level := Some ''moderate'' \<rparr>) ''gain_weight''
   = 267775 / 100"
proof -
  have "calculate_target_calories_binary64
      (p\<lparr> age := Some 20, height_cm := Some 168, weight_kg := Some 45,
          goal := Some ''gain_weight'', activity_level := Some ''moderate'' \<rparr>) ''gain_weight''
      = calculate_target_calories_binary64 example_profile ''gain_weight''"
    by (simp add: calculate_target_calories_binary64_def example_profile_def)
  then show ?thesis by (simp only: example_binary64)
qed

text \<open>Claim C7. For the profile with age 20, height 168 cm, weight 45 kg, goal \<^verbatim>\<open>gain_weight\<close> and
  activity level \<^verbatim>\<open>moderate\<close> (the other keys are free), the target calories are 2677.75,
  for every week plan and nutrition table: in exact arithmetic, and with binary64 rounding.\<close>

theorem target_calories_scenario:
  "target_calories (verifier_execute nd mp
      (p\<lparr> age := Some 20, height_cm := Some 168, weight_kg := Some 45,
          goal := Some ''gain_weight'', activity_level := Some ''moderate'' \<rparr>)) = 267775 / 100
   \<and> calculate_target_calories_binary64
      (p\<lparr> age := Some 20, height_cm := Some 168, weight_kg := Some 45,
          goal := Some ''gain_weight'', activity_level := Some ''moderate'' \<rparr>) ''gain_weight''
     = 267775 / 100"
proof -
  have "target_calories (verifier_execute nd mp
      (p\<lparr> age := Some 20, height_cm := Some 168, weight_kg := Some 45,
          goal := Some ''gain_weight'', activity_level := Some ''moderate'' \<rparr>)) = 267775 / 100"
    by (simp add: verifier_execute_def Let_def calculate_target_calories_def dict_get_def
        activity_multipliers_def)
  then show ?thesis
    by (simp only: scenario_binary64 simp_thms)
qed

theorem target_calories_scenario_witness:
  "target_calories (verifier_execute [] example_week example_profile) = 267775 / 100
   \<and> calculate_target_calories_binary64 example_profile ''gain_weight'' = 267775 / 100"
  using target_calories_scenario [of "[]" example_week example_profile]
  by (simp add: example_profile_def)

text \<open>Claim C9. When no entry of the week plan carries \<^verbatim>\<open>protein_g\<close> and the profile has a positive
  \<^verbatim>\<open>weight_kg\<close>, the verifier returns daily protein 0, \<open>protein_met\<close> false, and the
  recommendations contain the protein line, with the whole target as the shortfall.\<close>

theorem no_protein_fields:
  assumes "\<forall>m \<in> set (plan_entries mp). protein_g m = None"
    and "weight_kg up = Some w" and "0 < w"
  shows "daily_protein (verifier_execute nd mp up) = 0
       \<and> \<not> protein_met (verifier_execute nd mp up)
       \<and> (''Increase protein by '' @ fmt_0f (2 * w) @ ''g for muscle growth'')
           \<in> set (recommendations (verifier_execute nd mp up))"
proof -
  have dp: "calculate_daily_protein mp = 0"
    using days_protein_none [OF assms(1), of "(0, 0)"]
    by (simp add: calculate_daily_protein_def)
  have tp: "calculate_target_protein up = 2 * w"
    using assms(2) by (simp add: calculate_target_protein_def dict_get_def)
  show ?thesis
    using assms(3) by (simp add: verifier_execute_def Let_def dp tp)
qed

lemma workouts_only_protein: "map protein_g (plan_entries workouts_only) = replicate 7 None"
  by code_simp

lemma fmt_90: "fmt_0f 90 = ''90''"
  by code_simp

theorem no_protein_fields_witness:
  "map protein_g (plan_entries workouts_only) = replicate 7 None
   \<and> weight_kg example_profile = Some 45
   \<and> daily_protein (verifier_execute [] workouts_only example_profile) = 0
   \<and> \<not> protein_met (verifier_execute [] workouts_only example_profile)
   \<and> ''Increase protein by 90g for muscle growth''
       \<in> set (recommendations (verifier_execute [] workouts_only example_profile))"
proof -
  have h1: "\<forall>m \<in> set (plan_entries workouts_only). protein_g m = None"
  proof
    fix m assume "m \<in> set (plan_entries workouts_only)"
    then have "protein_g m \<in> set (map protein_g (plan_entries workouts_only))" by simp
    then show "protein_g m = None" by (simp add: workouts_only_protein)
  qed
  have h2: "weight_kg example_profile = Some 45" by (simp add: example_profile_def)
  show ?thesis
    using no_protein_fields [OF h1 h2, of "[]"] h2
    by (simp add: workouts_only_protein fmt_90)
qed

section \<open>Properties of the recipe search\<close>

lemma matches_criteria_iff:
  "matches_criteria r mt excl pref gfo \<longleftrightarrow>
     mt \<in> set (dict_get (meal_type r) [])
   \<and> (\<forall>a \<in> set excl. a \<notin> set (dict_get (allergens r) []))
   \<and> (pref \<noteq> [] \<longrightarrow> cuisine r \<in> Some ` set pref \<or> cuisine r = Some ''Indian'' \<or> cuisine r = Some ''South Indian'')
   \<and> (gfo \<longrightarrow> gut_friendly r = Some True)"
  by (cases "gut_friendly r") (auto simp: matches_criteria_def list_ex_iff dict_get_def)

lemma prefix_filter_take: "prefix (filter P (take n xs)) (filter P xs)"
  by (rule filter_mono_prefix) (rule take_is_prefix)

lemma sorted_map_take: "sorted (map f xs) \<Longrightarrow> sorted (map f (take n xs))"
  by (simp add: take_map [symmetric])

text \<open>Claim C3. For every catalog and every search context, with the defaults of the source for
  absent keys: every returned recipe is in the catalog and satisfies the four filters; the
  result is sorted by the distance of its calories from the target; recipes at the same
  distance come in catalog order (for each distance, those returned are an initial part
  of the matching catalog recipes at that distance); at most 5 are returned; and the
  result is the empty list when no recipe matches.\<close>

theorem recipe_search:
  "let prefs = dict_get (ctx_preferences ctx) empty_preferences;
       slot = dict_get (ctx_meal_type ctx) ''lunch'';
       exclude_allergens = dict_get (allergies prefs) [];
       preferred_cuisines = dict_get (p_cuisine prefs) [];
       gut_friendly_only = dict_get (gut_issues prefs) False;
       calorie_target = dict_get (ctx_calorie_target ctx) 500;
       ok = (\<lambda>r. slot \<in> set (dict_get (meal_type r) [])
                \<and> (\<forall>a \<in> set exclude_allergens. a \<notin> set (dict_get (allergens r) []))
                \<and> (preferred_cuisines \<noteq> [] \<longrightarrow>
                      cuisine r \<in> Some ` set preferred_cuisines
                      \<or> cuisine r = Some ''Indian'' \<or> cuisine r = Some ''South Indian'')
                \<and> (gut_friendly_only \<longrightarrow> gut_friendly r = Some True));
       dist = (\<lambda>r. \<bar>calories r - calorie_target\<bar>);
       res = recipes (recipe_execute catalog ctx)
   in (\<forall>r \<in> set res. r \<in> set catalog \<and> ok r)
    \<and> sorted (map dist res)
    \<and> (\<forall>k. prefix (filter (\<lambda>r. dist r = k) res) (filter (\<lambda>r. ok r \<and> dist r = k) catalog))
    \<and> length res \<le> 5
    \<and> ((\<forall>r \<in> set catalog. \<not> ok r) \<longrightarrow> res = [])"
proof -
  define prefs where "prefs = dict_get (ctx_preferences ctx) empty_preferences"
  define slot where "slot = dict_get (ctx_meal_type ctx) ''lunch''"
  define excl where "excl = dict_get (allergies prefs) []"
  define pref where "pref = dict_get (p_cuisine prefs) []"
  define gfo where "gfo = dict_get (gut_issues prefs) False"
  define tgt where "tgt = dict_get (ctx_calorie_target ctx) 500"
  define ok where "ok = (\<lambda>r::recipe. slot \<in> set (dict_get (meal_type r) [])
                \<and> (\<forall>a \<in> set excl. a \<notin> set (dict_get (allergens r) []))
                \<and> (pref \<noteq> [] \<longrightarrow> cuisine r \<in> Some ` set pref
                      \<or> cuisine r = Some ''Indian'' \<or> cuisine r = Some ''South Indian'')
                \<and> (gfo \<longrightarrow> gut_friendly r = Some True))"
  define dist where "dist = (\<lambda>r::recipe. \<bar>calories r - tgt\<bar>)"
  define res where "res = recipes (recipe_execute catalog ctx)"
  have matched: "matched_recipes catalog ctx = filter ok catalog"
    unfolding matched_recipes_def Let_def ok_def slot_def excl_def pref_def gfo_def prefs_def
    by (rule filter_cong) (simp_all add: matches_criteria_iff)
  have dist_eq: "calorie_distance tgt = dist"
    by (rule ext) (simp add: calorie_distance_def dist_def)
  have res: "res = take 5 (sort_key dist (filter ok catalog))"
    by (simp add: res_def recipe_execute_def Let_def matched tgt_def [symmetric] dist_eq)
  have p1: "\<forall>r \<in> set res. r \<in> set catalog \<and> ok r"
  proof
    fix r assume "r \<in> set res"
    then have "r \<in> set (sort_key dist (filter ok catalog))"
      unfolding res by (rule in_set_takeD)
    then show "r \<in> set catalog \<and> ok r" by simp
  qed
  have p2: "sorted (map dist res)"
    unfolding res by (rule sorted_map_take) simp
  have p3: "\<forall>k. prefix (filter (\<lambda>r. dist r = k) res) (filter (\<lambda>r. ok r \<and> dist r = k) catalog)"
  proof
    fix k
    have "prefix (filter (\<lambda>r. dist r = k) res) (filter (\<lambda>r. dist r = k) (sort_key dist (filter ok catalog)))"
      unfolding res by (rule prefix_filter_take)
    also have "filter (\<lambda>r. dist r = k) (sort_key dist (filter ok catalog)) = filter (\<lambda>r. dist r = k) (filter ok catalog)"
      by (rule sort_key_stable)
    also have "\<dots> = filter (\<lambda>r. ok r \<and> dist r = k) catalog"
      by (simp add: conj_commute)
    finally show "prefix (filter (\<lambda>r. dist r = k) res) (filter (\<lambda>r. ok r \<and> dist r = k) catalog)" .
  qed
  have p4: "length res \<le> 5" by (simp add: res)
  have p5: "(\<forall>r \<in> set catalog. \<not> ok r) \<longrightarrow> res = []"
  proof
    assume "\<forall>r \<in> set catalog. \<not> ok r"
    then have "filter ok catalog = []" by (simp add: filter_empty_conv)
    then show "res = []" by (simp add: res)
  qed
  show ?thesis
    unfolding Let_def
    using p1 p2 p3 p4 p5
    unfolding ok_def dist_def res_def tgt_def gfo_def pref_def excl_def slot_def prefs_def
    by (intro conjI) assumption+
qed

lemma example_search:
  "recipes (recipe_execute example_catalog example_context)
   = [mk_recipe ''L2'' [''lunch'', ''dinner''] ''Indian'' 600, mk_recipe ''L1'' [''lunch''] ''Indian'' 700]"
  by code_simp

theorem recipe_search_witness:
  "recipes (recipe_execute example_catalog example_context)
     = [mk_recipe ''L2'' [''lunch'', ''dinner''] ''Indian'' 600, mk_recipe ''L1'' [''lunch''] ''Indian'' 700]
   \<and> sorted (map (\<lambda>r. \<bar>calories r - 600\<bar>) (recipes (recipe_execute example_catalog example_context)))
   \<and> length (recipes (recipe_execute example_catalog example_context)) \<le> 5"
  using recipe_search [of example_context example_catalog]
  by (simp add: Let_def example_search) (simp add: example_context_def dict_get_def)

section \<open>Properties of the planner\<close>

lemma dict_set_fresh: "k \<notin> fst ` set d \<Longrightarrow> dict_set d k v = d @ [(k, v)]"
  by (induction d) auto

lemma mock_plan_loop_append:
  "distinct ds \<Longrightarrow> set ds \<inter> fst ` set mp = {} \<Longrightarrow>
   mock_plan_loop catalog prefs ds mp = mp @ map (\<lambda>day. (day, MealList (daily_meals catalog prefs day))) ds"
proof (induction ds arbitrary: mp)
  case Nil
  then show ?case by simp
next
  case (Cons d ds)
  from Cons.prems have fresh: "d \<notin> fst ` set mp" by auto
  have "set ds \<inter> fst ` set (mp @ [(d, MealList (daily_meals catalog prefs d))]) = {}"
    using Cons.prems by auto
  with Cons.IH [of "mp @ [(d, MealList (daily_meals catalog prefs d))]"] Cons.prems
  show ?case by (simp add: dict_set_fresh [OF fresh])
qed

lemma distinct_days: "distinct days"
  by (simp add: days_def)

lemma mock_plan_eq:
  "pr_meal_plan (generate_mock_plan catalog up prefs)
   = map (\<lambda>day. (day, MealList (daily_meals catalog prefs day))) days"
  using mock_plan_loop_append [OF distinct_days, of "[]" catalog prefs]
  by (simp add: generate_mock_plan_def)

lemma planner_execute_cases:
  "planner_execute catalog use_llm llm up prefs = generate_mock_plan catalog up prefs
   \<or> planner_execute catalog use_llm llm up prefs = generate_mock_plan catalog empty_profile empty_preferences"
  by (cases llm) (simp_all add: planner_execute_def generate_with_llm_def parse_llm_response_def)

lemma planner_plan_eq:
  "\<exists>prefs'. pr_meal_plan (planner_execute catalog use_llm llm up prefs)
   = map (\<lambda>day. (day, MealList (daily_meals catalog prefs' day))) days"
  using planner_execute_cases [of catalog use_llm llm up prefs]
  by (auto simp: mock_plan_eq)

lemma workout_some:
  "day \<in> set days \<Longrightarrow> \<exists>ty fo du ti. map_of workout_schedule day = Some (ty, fo, du, ti)"
  by (auto simp: days_def workout_schedule_def)

lemma slot_entries_append: "slot_entries s (xs @ ys) = slot_entries s xs @ slot_entries s ys"
  by (simp add: slot_entries_def)

lemma slot_entries_meal_entry:
  "slot_entries s [meal_entry s' t n r] = (if s' = s then [meal_entry s' t n r] else [])"
  by (simp add: slot_entries_def meal_entry_def)

lemma slot_entries_Nil: "slot_entries s [] = []"
  by (simp add: slot_entries_def)

lemma slot_entries_if:
  "slot_entries s (if b then xs else ys) = (if b then slot_entries s xs else slot_entries s ys)"
  by simp

lemma daily_meals_workout:
  assumes "map_of workout_schedule day = Some (ty, fo, du, ti)"
  shows "slot_entries ''workout'' (daily_meals catalog prefs day)
     = [\<lparr> meal = Some ''workout'', time = Some ti,
                 recipe_id = None, recipe_name = None, cal = None, protein_g = None,
                 ingredients = None, prep_time_min = None,
                 meal_notes = Some (fo @ '' - '' @ str_nat du @ '' minutes''),
                 wtype = Some ty, focus = Some fo, duration_min = Some du \<rparr>]"
  using assms
  by (simp add: daily_meals_def Let_def slot_entries_append slot_entries_meal_entry slot_entries_Nil
        slot_entries_if get_workout_for_day_def)
     (simp add: slot_entries_def)

lemma daily_meals_lunch:
  "slot_entries ''lunch'' (daily_meals catalog prefs day)
     = (let lunch_recipes = slot_recipes catalog prefs ''lunch'' 700
        in if lunch_recipes = [] then []
           else [meal_entry ''lunch'' ''13:30'' ''Protein-rich lunch''
                  (lunch_recipes ! (if day = ''Monday'' \<and> 2 \<le> length lunch_recipes then 1 else 0))])"
proof -
  have w: "slot_entries ''lunch'' (case get_workout_for_day day of Some workout \<Rightarrow> [workout] | None \<Rightarrow> []) = []"
    by (auto simp: get_workout_for_day_def slot_entries_def split: option.splits)
  show ?thesis
    by (simp add: daily_meals_def Let_def slot_entries_append slot_entries_meal_entry slot_entries_Nil
        slot_entries_if w)
qed

lemma map_of_tabulate:
  "map_of (map (\<lambda>k. (k, f k)) xs) k = (if k \<in> set xs then Some (f k) else None)"
  by (induction xs) auto

lemma plan_day_mock:
  "day \<in> set days \<Longrightarrow>
   plan_day (pr_meal_plan (generate_mock_plan catalog up prefs)) day = daily_meals catalog prefs day"
  by (simp add: mock_plan_eq plan_day_def map_of_tabulate day_entries_def)

lemma plan_day_planner:
  "\<exists>prefs'. \<forall>day \<in> set days.
     plan_day (pr_meal_plan (planner_execute catalog use_llm llm up prefs)) day = daily_meals catalog prefs' day"
  using planner_execute_cases [of catalog use_llm llm up prefs]
  by (auto simp: plan_day_mock)

lemma daily_meals_nonempty: "day \<in> set days \<Longrightarrow> daily_meals catalog prefs day \<noteq> []"
proof -
  assume "day \<in> set days"
  then obtain ty fo du ti where "map_of workout_schedule day = Some (ty, fo, du, ti)"
    using workout_some by blast
  then have "slot_entries ''workout'' (daily_meals catalog prefs day) \<noteq> []"
    by (simp add: daily_meals_workout)
  then show ?thesis by (auto simp: slot_entries_def)
qed

text \<open>Claim C8. The week plan of the planner has exactly the 7 day keys Monday to Sunday, in this
  order, and when the catalog is non-empty every day holds a non-empty list of entries.
  This holds for every profile and preferences, in the mock mode and in every outcome of
  the language-model mode.\<close>

theorem build_seven_days:
  "map fst (pr_meal_plan (planner_execute catalog use_llm llm up prefs))
     = [''Monday'', ''Tuesday'', ''Wednesday'', ''Thursday'', ''Friday'', ''Saturday'', ''Sunday'']
   \<and> length (pr_meal_plan (planner_execute catalog use_llm llm up prefs)) = 7
   \<and> (catalog \<noteq> [] \<longrightarrow>
        (\<forall>(day, v) \<in> set (pr_meal_plan (planner_execute catalog use_llm llm up prefs)).
           \<exists>ms. v = MealList ms \<and> ms \<noteq> []))"
proof -
  obtain prefs' where eq: "pr_meal_plan (planner_execute catalog use_llm llm up prefs)
     = map (\<lambda>day. (day, MealList (daily_meals catalog prefs' day))) days"
    using planner_plan_eq by blast
  have keys: "map fst (pr_meal_plan (planner_execute catalog use_llm llm up prefs)) = days"
    by (simp add: eq comp_def)
  have len: "length (pr_meal_plan (planner_execute catalog use_llm llm up prefs)) = 7"
    by (simp add: eq) (simp add: days_def)
  have ne: "\<forall>(day, v) \<in> set (pr_meal_plan (planner_execute catalog use_llm llm up prefs)).
           \<exists>ms. v = MealList ms \<and> ms \<noteq> []"
    by (auto simp: eq daily_meals_nonempty)
  from keys len ne show ?thesis by (simp add: days_def)
qed

lemma example_catalog_nonempty: "example_catalog \<noteq> []"
  by (simp add: example_catalog_def)

theorem build_seven_days_witness:
  "example_catalog \<noteq> []
   \<and> map fst (pr_meal_plan (planner_execute example_catalog False NoApiKey example_profile empty_preferences))
      = [''Monday'', ''Tuesday'', ''Wednesday'', ''Thursday'', ''Friday'', ''Saturday'', ''Sunday'']
   \<and> MealList [] \<notin> snd ` set (pr_meal_plan (planner_execute example_catalog False NoApiKey example_profile empty_preferences))
   \<and> NotAList \<notin> snd ` set (pr_meal_plan (planner_execute example_catalog False NoApiKey example_profile empty_preferences))"
  using build_seven_days [of example_catalog False NoApiKey example_profile empty_preferences]
    example_catalog_nonempty
  by fastforce

text \<open>Claim C10. Every one of the 7 days of the week plan holds exactly one entry of slot
  \<^verbatim>\<open>workout\<close>, the one \<^verbatim>\<open>_get_workout_for_day\<close> builds from the row of the day in the
  workout table (type, focus, duration and time), so no day is empty, whatever the catalog.\<close>

theorem each_day_one_workout:
  "map fst (pr_meal_plan (planner_execute catalog use_llm llm up prefs)) = days
   \<and> (\<forall>day \<in> set days.
        \<exists>w ty fo du ti.
          get_workout_for_day day = Some w
          \<and> map_of workout_schedule day = Some (ty, fo, du, ti)
          \<and> meal w = Some ''workout'' \<and> wtype w = Some ty \<and> focus w = Some fo
          \<and> duration_min w = Some du \<and> time w = Some ti
          \<and> slot_entries ''workout'' (plan_day (pr_meal_plan (planner_execute catalog use_llm llm up prefs)) day) = [w]
          \<and> plan_day (pr_meal_plan (planner_execute catalog use_llm llm up prefs)) day \<noteq> [])"
proof -
  obtain prefs' where eq: "pr_meal_plan (planner_execute catalog use_llm llm up prefs)
     = map (\<lambda>day. (day, MealList (daily_meals catalog prefs' day))) days"
    using planner_plan_eq by blast
  have keys: "map fst (pr_meal_plan (planner_execute catalog use_llm llm up prefs)) = days"
    by (simp add: eq comp_def)
  have each: "\<exists>w ty fo du ti.
          get_workout_for_day day = Some w
          \<and> map_of workout_schedule day = Some (ty, fo, du, ti)
          \<and> meal w = Some ''workout'' \<and> wtype w = Some ty \<and> focus w = Some fo
          \<and> duration_min w = Some du \<and> time w = Some ti
          \<and> slot_entries ''workout'' (plan_day (pr_meal_plan (planner_execute catalog use_llm llm up prefs)) day) = [w]
          \<and> plan_day (pr_meal_plan (planner_execute catalog use_llm llm up prefs)) day \<noteq> []"
    if day: "day \<in> set days" for day
  proof -
    have pd: "plan_day (pr_meal_plan (planner_execute catalog use_llm llm up prefs)) day
        = daily_meals catalog prefs' day"
      using day by (simp add: eq plan_day_def map_of_tabulate day_entries_def)
    obtain ty fo du ti where tab: "map_of workout_schedule day = Some (ty, fo, du, ti)"
      using workout_some [OF day] by blast
    show ?thesis
      using tab daily_meals_workout [OF tab, of catalog prefs'] daily_meals_nonempty [OF day, of catalog prefs']
      by (simp add: pd get_workout_for_day_def)
  qed
  from keys each show ?thesis by blast
qed

lemma sunday_workout:
  "get_workout_for_day ''Sunday''
   = Some \<lparr> meal = Some ''workout'', time = Some ''08:00'',
            recipe_id = None, recipe_name = None, cal = None, protein_g = None,
            ingredients = None, prep_time_min = None,
            meal_notes = Some ''Active Recovery - 20 minutes'',
            wtype = Some ''rest'', focus = Some ''Active Recovery'', duration_min = Some 20 \<rparr>"
  by code_simp

lemma sunday_in_days: "''Sunday'' \<in> set days"
  by (simp add: days_def)

theorem each_day_one_workout_witness:
  "''Sunday'' \<in> set days
   \<and> slot_entries ''workout''
        (plan_day (pr_meal_plan (planner_execute [] False NoApiKey empty_profile empty_preferences)) ''Sunday'')
     = [\<lparr> meal = Some ''workout'', time = Some ''08:00'',
            recipe_id = None, recipe_name = None, cal = None, protein_g = None,
            ingredients = None, prep_time_min = None,
            meal_notes = Some ''Active Recovery - 20 minutes'',
            wtype = Some ''rest'', focus = Some ''Active Recovery'', duration_min = Some 20 \<rparr>]
   \<and> plan_day (pr_meal_plan (planner_execute [] False NoApiKey empty_profile empty_preferences)) ''Sunday'' \<noteq> []"
  using each_day_one_workout [of "[]" False NoApiKey empty_profile empty_preferences] sunday_in_days
  by (auto simp: sunday_workout)

text \<open>Claim C2. As stated the claim fails: with two lunch candidates, Tuesday takes the candidate at
  index 0 and Monday the one at index 1.\<close>

theorem lunch_selection_counterexample:
  "length (slot_recipes example_catalog empty_preferences ''lunch'' 700) = 2
   \<and> slot_entries ''lunch'' (plan_day (pr_meal_plan (generate_mock_plan example_catalog empty_profile empty_preferences)) ''Tuesday'')
       = [meal_entry ''lunch'' ''13:30'' ''Protein-rich lunch'' (slot_recipes example_catalog empty_preferences ''lunch'' 700 ! 0)]
   \<and> slot_entries ''lunch'' (plan_day (pr_meal_plan (generate_mock_plan example_catalog empty_profile empty_preferences)) ''Tuesday'')
       \<noteq> [meal_entry ''lunch'' ''13:30'' ''Protein-rich lunch'' (slot_recipes example_catalog empty_preferences ''lunch'' 700 ! 1)]
   \<and> slot_entries ''lunch'' (plan_day (pr_meal_plan (generate_mock_plan example_catalog empty_profile empty_preferences)) ''Monday'')
       = [meal_entry ''lunch'' ''13:30'' ''Protein-rich lunch'' (slot_recipes example_catalog empty_preferences ''lunch'' 700 ! 1)]
   \<and> slot_entries ''lunch'' (plan_day (pr_meal_plan (generate_mock_plan example_catalog empty_profile empty_preferences)) ''Monday'')
       \<noteq> [meal_entry ''lunch'' ''13:30'' ''Protein-rich lunch'' (slot_recipes example_catalog empty_preferences ''lunch'' 700 ! 0)]"
  by code_simp

text \<open>Claim C2, amended. On every day of the week the lunch entry is built from the candidate at index 0,
  except on Monday, where it is the candidate at index 1 when at least 2 candidates exist
  (index 0 otherwise); with no candidate the day has no lunch entry.\<close>

theorem lunch_selection:
  "day \<in> set days \<Longrightarrow>
   slot_entries ''lunch'' (plan_day (pr_meal_plan (generate_mock_plan catalog up prefs)) day)
     = (let lunch_recipes = slot_recipes catalog prefs ''lunch'' 700
        in if lunch_recipes = [] then []
           else [meal_entry ''lunch'' ''13:30'' ''Protein-rich lunch''
                  (lunch_recipes ! (if day = ''Monday'' \<and> 2 \<le> length lunch_recipes then 1 else 0))])"
  by (simp add: plan_day_mock daily_meals_lunch)

lemma example_lunch_recipes:
  "slot_recipes example_catalog empty_preferences ''lunch'' 700
   = [mk_recipe ''L1'' [''lunch''] ''Indian'' 700, mk_recipe ''L2'' [''lunch'', ''dinner''] ''Indian'' 600]"
  by code_simp

lemma monday_in_days: "''Monday'' \<in> set days"
  by (simp add: days_def)

theorem lunch_selection_witness:
  "''Monday'' \<in> set days
   \<and> slot_entries ''lunch'' (plan_day (pr_meal_plan (generate_mock_plan example_catalog empty_profile empty_preferences)) ''Monday'')
     = [meal_entry ''lunch'' ''13:30'' ''Protein-rich lunch'' (mk_recipe ''L2'' [''lunch'', ''dinner''] ''Indian'' 600)]"
  using lunch_selection [OF monday_in_days, of example_catalog empty_profile empty_preferences]
  by (simp add: example_lunch_recipes monday_in_days)

section \<open>Properties of the scheduler\<close>

lemma normalize_pieces:
  "normalize_name ''eggs'' = ''eggs''" "normalize_name ''banana'' = ''banana''"
  "normalize_name ''dates'' = ''dates''"
  by code_simp+

lemma base_pieces:
  "map_of base_quantities ''eggs'' = Some 2" "map_of base_quantities ''banana'' = Some 1"
  "map_of base_quantities ''dates'' = Some (5 / 100)"
  by (simp_all add: base_quantities_def)

text \<open>Claim C6. For an occurrence count \<open>n\<close>, the quantity of \<^verbatim>\<open>eggs\<close>, \<^verbatim>\<open>banana\<close> and \<^verbatim>\<open>dates\<close> is
  the integer part of base quantity times \<open>n\<close> times \<open>n\<close>, followed by \<^verbatim>\<open> pieces\<close>, with
  base quantity 2, 1 and 0.05.\<close>

theorem piece_quantities:
  "estimate_quantity ''eggs'' (of_nat n) = str_int \<lfloor>2 * (of_nat n :: rat) * of_nat n\<rfloor> @ '' pieces''
   \<and> estimate_quantity ''banana'' (of_nat n) = str_int \<lfloor>1 * (of_nat n :: rat) * of_nat n\<rfloor> @ '' pieces''
   \<and> estimate_quantity ''dates'' (of_nat n) = str_int \<lfloor>(5 / 100) * (of_nat n :: rat) * of_nat n\<rfloor> @ '' pieces''"
  by (simp add: estimate_quantity_def Let_def normalize_pieces base_pieces dict_get_def py_int_def)

lemma str_int_pieces: "str_int 18 = ''18''" "str_int 9 = ''9''" "str_int 2 = ''2''"
  by code_simp+

theorem piece_quantities_witness:
  "estimate_quantity ''eggs'' 3 = ''18 pieces''
   \<and> estimate_quantity ''banana'' 3 = ''9 pieces''
   \<and> estimate_quantity ''dates'' 7 = ''2 pieces''"
proof -
  have f: "\<lfloor>(5 / 100 :: rat) * 7 * 7\<rfloor> = 2" by (simp add: floor_eq_iff)
  show ?thesis
    using piece_quantities [of 3] piece_quantities [of 7] f
    by (simp add: str_int_pieces)
qed

section \<open>Properties of the orchestrator\<close>

lemma history_apply_user_input: "history (apply_user_input inp d) = history d"
  by (simp add: apply_user_input_def split: option.splits)

lemma map_of_dict_set: "map_of (dict_set d k v) k' = (if k' = k then Some v else map_of d k')"
  by (induction d) auto

lemma update_session_created:
  "map_of ss sid = Some s \<Longrightarrow> map_of (update_session sid f ss) sid = Some (f s)"
  by (simp add: update_session_def map_of_dict_set)

lemma nonempty_profile_succeeds:
  assumes "user_profile (apply_user_input inp (data (memory orch))) \<noteq> empty_profile"
  shows "\<exists>final. fst (create_meal_plan env inp orch) = Inr final
       \<and> plan_id final = ''plan_'' @ now_stamp env
       \<and> map h_plan_id (get_history (memory (snd (create_meal_plan env inp orch))))
           = map h_plan_id (get_history (memory orch)) @ [plan_id final]
       \<and> memory_file (memory (snd (create_meal_plan env inp orch)))
           = data (memory (snd (create_meal_plan env inp orch)))"
  using assms
  by (simp add: create_meal_plan_def Let_def get_history_def history_apply_user_input
      add_plan_to_history_def save_def)

lemma profile_update_empty:
  "profile_update p q = empty_profile \<longleftrightarrow> p = empty_profile \<and> q = empty_profile"
  by (cases p, cases q) (auto simp: profile_update_def empty_profile_def option_or_def split: option.splits)

text \<open>Claim C5. When the profile the call works with (the stored profile, updated with the profile
  of the input) is empty, \<^verbatim>\<open>create_meal_plan\<close> raises the error \<^verbatim>\<open>ValueError("User profile not
  found. Please set up profile first.")\<close> to its caller; the history, its length and the
  memory file are as before the call, and the session of the call is marked failed and
  holds no result.\<close>

theorem empty_profile_fails:
  assumes "user_profile (apply_user_input inp (data (memory orch))) = empty_profile"
  shows "fst (create_meal_plan env inp orch)
           = Inl (ValueError ''User profile not found. Please set up profile first.'')
       \<and> get_history (memory (snd (create_meal_plan env inp orch))) = get_history (memory orch)
       \<and> length (get_history (memory (snd (create_meal_plan env inp orch)))) = length (get_history (memory orch))
       \<and> memory_file (memory (snd (create_meal_plan env inp orch))) = memory_file (memory orch)
       \<and> map_of (o_sessions (snd (create_meal_plan env inp orch))) (new_uuid env)
           = Some \<lparr> s_id = new_uuid env, status = ''failed'', s_context = None, s_meal_plan = None,
                    s_verification = None, s_schedule = None, s_result = None,
                    s_error = Some ''User profile not found. Please set up profile first.'' \<rparr>"
  using assms
  by (simp add: create_meal_plan_def Let_def get_history_def history_apply_user_input
      fail_session_def update_session_def create_session_def map_of_dict_set)

lemma example_profile_empty:
  "user_profile (apply_user_input None (data (memory example_orchestrator))) = empty_profile"
  by (simp add: apply_user_input_def example_orchestrator_def)

theorem empty_profile_fails_witness:
  "user_profile (apply_user_input None (data (memory example_orchestrator))) = empty_profile
   \<and> fst (create_meal_plan example_environment None example_orchestrator)
       = Inl (ValueError ''User profile not found. Please set up profile first.'')
   \<and> length (get_history (memory (snd (create_meal_plan example_environment None example_orchestrator)))) = 1"
  using empty_profile_fails [OF example_profile_empty, of example_environment] example_profile_empty
  by (simp add: get_history_def example_orchestrator_def)

end
